theory Spec2Isabelle
  imports Main
begin

section \<open>Python values as the server sees them\<close>

text \<open>
  The server (\<^verbatim>\<open>src/orkl/server.py\<close>) passes parsed JSON through unchanged, so the
  values it handles are the ones \<^verbatim>\<open>json.loads\<close> builds: \<^verbatim>\<open>None\<close>, booleans, integers,
  strings, lists and string-keyed dicts. A dict is an association list in insertion order.
  A character stands for the code point of the same number. JSON numbers with a fraction
  or an exponent (Python floats) are outside the model.
\<close>

datatype json =
    JNull
  | JBool bool
  | JInt int
  | JStr string
  | JArr "json list"
  | JObj "(string \<times> json) list"

text \<open>
  Exceptions are values. The server raises \<^verbatim>\<open>ValueError\<close> itself, with a message; the
  others are raised by the Python operations it applies.
\<close>

datatype error =
    ValueError string
  | KeyError string
  | TypeError
  | AttributeError
  | IndexError
  | TransportError
  | JSONDecodeError

text \<open>The four conditions the server signals, each a \<^verbatim>\<open>ValueError\<close> with its message.\<close>

definition InvalidAddress :: "string \<Rightarrow> error" where
  "InvalidAddress s = ValueError (''Unsupported URI scheme: '' @ s)"

definition UnknownResourceType :: "string \<Rightarrow> error" where
  "UnknownResourceType t = ValueError (''Unknown resource type: '' @ t)"

definition MissingArgument :: "string \<Rightarrow> error" where
  "MissingArgument k = ValueError (k @ '' is required.'')"

definition UnknownTool :: "string \<Rightarrow> error" where
  "UnknownTool n = ValueError (''Unknown tool: '' @ n)"

subsection \<open>Text of integers and of code points\<close>

definition digit_char :: "nat \<Rightarrow> char" where
  "digit_char n = ''0123456789abcdef'' ! n"

fun show_nat :: "nat \<Rightarrow> string" where
  "show_nat n =
     (if n < 10 then [digit_char n] else show_nat (n div 10) @ [digit_char (n mod 10)])"

definition show_int :: "int \<Rightarrow> string" where
  "show_int i = (if i < 0 then CHR ''-'' # show_nat (nat (- i)) else show_nat (nat i))"

definition hex2 :: "nat \<Rightarrow> string" where
  "hex2 n = [digit_char (n div 16), digit_char (n mod 16)]"

fun join :: "string \<Rightarrow> string list \<Rightarrow> string" where
  "join sep [] = []"
| "join sep [x] = x"
| "join sep (x # y # ys) = x @ sep @ join sep (y # ys)"

subsection \<open>\<^verbatim>\<open>str.strip\<close> and \<^verbatim>\<open>str.split\<close> with a one-character argument\<close>

definition str_strip :: "char \<Rightarrow> string \<Rightarrow> string" where
  "str_strip c s = rev (dropWhile (\<lambda>x. x = c) (rev (dropWhile (\<lambda>x. x = c) s)))"

fun str_split :: "char \<Rightarrow> string \<Rightarrow> string list" where
  "str_split c [] = [[]]"
| "str_split c (x # xs) =
     (if x = c then [] # str_split c xs
      else (case str_split c xs of [] \<Rightarrow> [[x]] | p # ps \<Rightarrow> (x # p) # ps))"

subsection \<open>\<^verbatim>\<open>json.dumps(value, indent=2)\<close>\<close>

text \<open>
  With the default \<^verbatim>\<open>ensure_ascii\<close>, every character outside the range from the space
  to the tilde is escaped, as are the double quote and the backslash.
\<close>

definition json_escape_char :: "char \<Rightarrow> string" where
  "json_escape_char c =
     (if c = CHR 0x22 then [CHR 0x5C, CHR 0x22]
      else if c = CHR 0x5C then [CHR 0x5C, CHR 0x5C]
      else if c = CHR 0x0A then [CHR 0x5C, CHR ''n'']
      else if c = CHR 0x0D then [CHR 0x5C, CHR ''r'']
      else if c = CHR 0x09 then [CHR 0x5C, CHR ''t'']
      else if c = CHR 0x08 then [CHR 0x5C, CHR ''b'']
      else if c = CHR 0x0C then [CHR 0x5C, CHR ''f'']
      else if of_char c < (32::nat) \<or> (127::nat) \<le> of_char c
        then [CHR 0x5C, CHR ''u'', CHR ''0'', CHR ''0''] @ hex2 (of_char c)
      else [c])"

definition json_string :: "string \<Rightarrow> string" where
  "json_string s = [CHR 0x22] @ concat (map json_escape_char s) @ [CHR 0x22]"

definition newline_indent :: "nat \<Rightarrow> string" where
  "newline_indent lvl = CHR 0x0A # replicate (2 * lvl) CHR '' ''"

fun json_dumps_at :: "nat \<Rightarrow> json \<Rightarrow> string" where
  "json_dumps_at lvl JNull = ''null''"
| "json_dumps_at lvl (JBool b) = (if b then ''true'' else ''false'')"
| "json_dumps_at lvl (JInt i) = show_int i"
| "json_dumps_at lvl (JStr s) = json_string s"
| "json_dumps_at lvl (JArr xs) =
     (if xs = [] then ''[]''
      else ''['' @ newline_indent (lvl + 1)
           @ join ('','' @ newline_indent (lvl + 1)) (map (json_dumps_at (lvl + 1)) xs)
           @ newline_indent lvl @ '']'')"
| "json_dumps_at lvl (JObj kvs) =
     (if kvs = [] then ''{}''
      else ''{'' @ newline_indent (lvl + 1)
           @ join ('','' @ newline_indent (lvl + 1))
               (map (\<lambda>(k, v). json_string k @ '': '' @ json_dumps_at (lvl + 1) v) kvs)
           @ newline_indent lvl @ ''}'')"

definition json_dumps :: "json \<Rightarrow> string" where
  "json_dumps v = json_dumps_at 0 v"

subsection \<open>\<^verbatim>\<open>str(value)\<close>, which an f-string applies to each field\<close>

definition repr_char :: "char \<Rightarrow> char \<Rightarrow> string" where
  "repr_char q c =
     (if c = q \<or> c = CHR 0x5C then [CHR 0x5C, c]
      else if c = CHR 0x09 then [CHR 0x5C, CHR ''t'']
      else if c = CHR 0x0A then [CHR 0x5C, CHR ''n'']
      else if c = CHR 0x0D then [CHR 0x5C, CHR ''r'']
      else if of_char c < (32::nat) \<or> ((127::nat) \<le> of_char c \<and> of_char c \<le> (160::nat))
              \<or> of_char c = (173::nat)
        then [CHR 0x5C, CHR ''x''] @ hex2 (of_char c)
      else [c])"

definition repr_str :: "string \<Rightarrow> string" where
  "repr_str s =
     (let q = (if CHR 0x27 \<in> set s \<and> CHR 0x22 \<notin> set s then CHR 0x22 else CHR 0x27)
      in [q] @ concat (map (repr_char q) s) @ [q])"

fun py_repr :: "json \<Rightarrow> string" where
  "py_repr JNull = ''None''"
| "py_repr (JBool b) = (if b then ''True'' else ''False'')"
| "py_repr (JInt i) = show_int i"
| "py_repr (JStr s) = repr_str s"
| "py_repr (JArr xs) = ''['' @ join '', '' (map py_repr xs) @ '']''"
| "py_repr (JObj kvs) =
     ''{'' @ join '', '' (map (\<lambda>(k, v). repr_str k @ '': '' @ py_repr v) kvs) @ ''}''"

fun py_str :: "json \<Rightarrow> string" where
  "py_str (JStr s) = s"
| "py_str v = py_repr v"

subsection \<open>Subscription, \<^verbatim>\<open>.get\<close> and iteration\<close>

text \<open>\<^verbatim>\<open>value[key]\<close> with a string key: only a dict that has the key answers.\<close>

fun py_getitem :: "json \<Rightarrow> string \<Rightarrow> error + json" where
  "py_getitem (JObj kvs) k = (case map_of kvs k of None \<Rightarrow> Inl (KeyError k) | Some v \<Rightarrow> Inr v)"
| "py_getitem v k = Inl TypeError"

text \<open>\<^verbatim>\<open>value.get(key, default)\<close>: only a dict has the method.\<close>

fun py_get :: "json \<Rightarrow> string \<Rightarrow> json \<Rightarrow> error + json" where
  "py_get (JObj kvs) k dflt = (case map_of kvs k of None \<Rightarrow> Inr dflt | Some v \<Rightarrow> Inr v)"
| "py_get v k dflt = Inl AttributeError"

text \<open>
  \<^verbatim>\<open>for x in value\<close>: a list gives its elements, a dict its keys, a string its
  characters; nothing else is iterable.
\<close>

fun py_iter :: "json \<Rightarrow> error + json list" where
  "py_iter (JArr xs) = Inr xs"
| "py_iter (JObj kvs) = Inr (map (\<lambda>(k, v). JStr k) kvs)"
| "py_iter (JStr s) = Inr (map (\<lambda>c. JStr [c]) s)"
| "py_iter v = Inl TypeError"

text \<open>A list comprehension whose element expression may raise stops at the first raise.\<close>

fun map_err :: "('a \<Rightarrow> error + 'b) \<Rightarrow> 'a list \<Rightarrow> error + 'b list" where
  "map_err f [] = Inr []"
| "map_err f (x # xs) =
     (case f x of
        Inl e \<Rightarrow> Inl e
      | Inr y \<Rightarrow> (case map_err f xs of Inl e \<Rightarrow> Inl e | Inr ys \<Rightarrow> Inr (y # ys)))"

subsection \<open>The dicts of the cache\<close>

text \<open>
  The cache dicts are keyed by whatever the upstream sends as \<^verbatim>\<open>id\<close>. Lists and dicts
  are unhashable; \<^verbatim>\<open>True\<close> and \<^verbatim>\<open>1\<close> (\<^verbatim>\<open>False\<close> and \<^verbatim>\<open>0\<close>) are the same key. A
  store under an existing key replaces the value and keeps the key and its position; a
  store under a new key appends.
\<close>

type_synonym pydict = "(json \<times> json) list"

fun hashable :: "json \<Rightarrow> bool" where
  "hashable (JArr xs) = False"
| "hashable (JObj kvs) = False"
| "hashable v = True"

fun key_norm :: "json \<Rightarrow> json" where
  "key_norm (JBool b) = JInt (if b then 1 else 0)"
| "key_norm v = v"

definition key_eq :: "json \<Rightarrow> json \<Rightarrow> bool" where
  "key_eq a b = (key_norm a = key_norm b)"

fun dict_lookup :: "pydict \<Rightarrow> json \<Rightarrow> json option" where
  "dict_lookup [] k = None"
| "dict_lookup ((a, b) # d) k = (if key_eq a k then Some b else dict_lookup d k)"

fun dict_setitem :: "pydict \<Rightarrow> json \<Rightarrow> json \<Rightarrow> pydict" where
  "dict_setitem [] k v = [(k, v)]"
| "dict_setitem ((a, b) # d) k v =
     (if key_eq a k then (a, v) # d else (a, b) # dict_setitem d k v)"

section \<open>The server\<close>

definition ORKL_BASE_URL :: string where
  "ORKL_BASE_URL = ''https://orkl.eu/api/v1''"

text \<open>The module-level \<^verbatim>\<open>cache\<close>: one dict per kind, all empty when the process starts.\<close>

record cache =
  threat_reports :: pydict
  threat_actors :: pydict
  sources :: pydict

definition empty_cache :: cache where
  "empty_cache = \<lparr>threat_reports = [], threat_actors = [], sources = []\<rparr>"

text \<open>
  \<^verbatim>\<open>types.Resource\<close>; \<open>uri\<close> holds the address text that the server hands to
  \<^verbatim>\<open>AnyUrl\<close>, which is taken to accept every such text.
\<close>

record resource =
  uri :: string
  name :: string
  description :: string
  mimeType :: string

text \<open>\<^verbatim>\<open>types.TextContent\<close>.\<close>

record text_content =
  content_type :: string
  content_text :: string

definition TextContent :: "string \<Rightarrow> text_content" where
  "TextContent t = \<lparr>content_type = ''text'', content_text = t\<rparr>"

text \<open>
  A parsed \<^verbatim>\<open>AnyUrl\<close>, with the components pydantic gives it: in
  \<^verbatim>\<open>scheme://host/path\<close> the text between the double slash and the next slash is the
  host, and the path starts at that next slash. The path is \<^verbatim>\<open>None\<close> when the address
  has none.
\<close>

record any_url =
  scheme :: string
  host :: "string option"
  path :: "string option"

text \<open>
  What \<^verbatim>\<open>httpx\<close> returns: the status, the raw body, and what \<^verbatim>\<open>response.json()\<close>
  gives (it raises on a body that is not JSON). The upstream catalog is a parameter of the
  model: a function from the requested URL to the response, or to the exception
  \<^verbatim>\<open>client.get\<close> raises.
\<close>

record response =
  status_code :: int
  response_text :: string
  response_json :: "error + json"

type_synonym upstream = "string \<Rightarrow> error + response"

text \<open>
  The state a tool call works on: the cache, and the log of the URLs requested so far
  (the network, made visible).
\<close>

record world =
  cache :: cache
  requests :: "string list"

subsection \<open>\<^verbatim>\<open>handle_list_resources\<close>\<close>

definition report_resource :: "json \<times> json \<Rightarrow> error + resource" where
  "report_resource = (\<lambda>(report_id, details).
     (case py_getitem details ''title'' of
        Inl e \<Rightarrow> Inl e
      | Inr title \<Rightarrow> Inr \<lparr>uri = ''threat://report/'' @ py_str report_id,
                         name = ''Threat Report: '' @ py_str title,
                         description = ''Threat report titled '' @ py_str title,
                         mimeType = ''application/json''\<rparr>))"

definition actor_resource :: "json \<times> json \<Rightarrow> error + resource" where
  "actor_resource = (\<lambda>(actor_id, details).
     (case py_getitem details ''main_name'' of
        Inl e \<Rightarrow> Inl e
      | Inr main_name \<Rightarrow> Inr \<lparr>uri = ''threat://actor/'' @ py_str actor_id,
                             name = ''Threat Actor: '' @ py_str main_name,
                             description = ''Threat actor known as '' @ py_str main_name,
                             mimeType = ''application/json''\<rparr>))"

definition source_resource :: "json \<times> json \<Rightarrow> error + resource" where
  "source_resource = (\<lambda>(source_id, details).
     (case py_getitem details ''name'' of
        Inl e \<Rightarrow> Inl e
      | Inr nm \<Rightarrow> Inr \<lparr>uri = ''threat://source/'' @ py_str source_id,
                      name = ''Source: '' @ py_str nm,
                      description = ''Source '' @ py_str nm,
                      mimeType = ''application/json''\<rparr>))"

definition handle_list_resources :: "cache \<Rightarrow> error + resource list" where
  "handle_list_resources c =
     (case map_err report_resource (threat_reports c) of
        Inl e \<Rightarrow> Inl e
      | Inr reports \<Rightarrow>
          (case map_err actor_resource (threat_actors c) of
             Inl e \<Rightarrow> Inl e
           | Inr actors \<Rightarrow>
               (case map_err source_resource (sources c) of
                  Inl e \<Rightarrow> Inl e
                | Inr srcs \<Rightarrow> Inr (reports @ actors @ srcs))))"

subsection \<open>\<^verbatim>\<open>handle_read_resource\<close>\<close>

definition get_or_empty :: "pydict \<Rightarrow> string \<Rightarrow> json" where
  "get_or_empty d resource_id =
     (case dict_lookup d (JStr resource_id) of None \<Rightarrow> JObj [] | Some v \<Rightarrow> v)"

definition handle_read_resource :: "cache \<Rightarrow> any_url \<Rightarrow> error + string" where
  "handle_read_resource c u =
     (if scheme u \<noteq> ''threat'' then Inl (InvalidAddress (scheme u))
      else (case path u of
              None \<Rightarrow> Inl AttributeError
            | Some p \<Rightarrow>
                (case str_split CHR ''/'' (str_strip CHR ''/'' p) of
                   resource_type # resource_id # rest \<Rightarrow>
                     if resource_type = ''report''
                       then Inr (json_dumps (get_or_empty (threat_reports c) resource_id))
                     else if resource_type = ''actor''
                       then Inr (json_dumps (get_or_empty (threat_actors c) resource_id))
                     else if resource_type = ''source''
                       then Inr (json_dumps (get_or_empty (sources c) resource_id))
                     else Inl (UnknownResourceType resource_type)
                 | _ \<Rightarrow> Inl IndexError)))"

subsection \<open>\<^verbatim>\<open>list_tools\<close>: the six tools and the arguments each requires\<close>

definition list_tools :: "(string \<times> string list) list" where
  "list_tools =
     [(''fetch_latest_threat_reports'', []),
      (''fetch_threat_report_details'', [''report_id'']),
      (''fetch_threat_actors'', []),
      (''fetch_threat_actor_details'', [''actor_id'']),
      (''fetch_sources'', []),
      (''fetch_source_details'', [''source_id''])]"

subsection \<open>\<^verbatim>\<open>handle_call_tool\<close>\<close>

text \<open>
  The six branches of the handler are three pairs of the same two shapes, one pair per
  dict of the cache. \<open>kind\<close> names the dict a branch works on.
\<close>

datatype kind = Report | Actor | Source

fun slot :: "kind \<Rightarrow> cache \<Rightarrow> pydict" where
  "slot Report c = threat_reports c"
| "slot Actor c = threat_actors c"
| "slot Source c = sources c"

fun slot_update :: "kind \<Rightarrow> pydict \<Rightarrow> cache \<Rightarrow> cache" where
  "slot_update Report d c = c\<lparr>threat_reports := d\<rparr>"
| "slot_update Actor d c = c\<lparr>threat_actors := d\<rparr>"
| "slot_update Source d c = c\<lparr>sources := d\<rparr>"

text \<open>
  \<^verbatim>\<open>return [types.TextContent(type="text", text=f"Error: {response.status_code} {response.text}")]\<close>
\<close>

definition error_result :: "response \<Rightarrow> text_content list" where
  "error_result response =
     [TextContent (''Error: '' @ show_int (status_code response) @ '' '' @ response_text response)]"

text \<open>
  \<^verbatim>\<open>for report in reports: cache["threat_reports"][report["id"]] = report\<close>.
  A raise inside the loop leaves the writes made so far in place.
\<close>

fun store_entries :: "pydict \<Rightarrow> json list \<Rightarrow> error option \<times> pydict" where
  "store_entries d [] = (None, d)"
| "store_entries d (e # es) =
     (case py_getitem e ''id'' of
        Inl err \<Rightarrow> (Some err, d)
      | Inr k \<Rightarrow> if hashable k then store_entries (dict_setitem d k e) es
                else (Some TypeError, d))"

text \<open>\<^verbatim>\<open>f"ID: {report['id']}, Title: {report['title']}"\<close>, and the same for the other kinds.\<close>

definition summary_line :: "string \<Rightarrow> string \<Rightarrow> json \<Rightarrow> error + string" where
  "summary_line label field e =
     (case py_getitem e ''id'' of
        Inl err \<Rightarrow> Inl err
      | Inr i \<Rightarrow>
          (case py_getitem e field of
             Inl err \<Rightarrow> Inl err
           | Inr t \<Rightarrow> Inr (''ID: '' @ py_str i @ '', '' @ label @ '': '' @ py_str t)))"

text \<open>The body of a list branch, after the name has matched.\<close>

definition fetch_entries ::
  "upstream \<Rightarrow> string \<Rightarrow> kind \<Rightarrow> string \<Rightarrow> string \<Rightarrow> world
     \<Rightarrow> (error + text_content list) \<times> world" where
  "fetch_entries client url k label field w =
     (let w1 = w\<lparr>requests := requests w @ [url]\<rparr> in
      case client url of
        Inl e \<Rightarrow> (Inl e, w1)
      | Inr response \<Rightarrow>
          if status_code response = 200 then
            (case response_json response of
               Inl e \<Rightarrow> (Inl e, w1)
             | Inr body \<Rightarrow>
                 (case py_get body ''data'' (JArr []) of
                    Inl e \<Rightarrow> (Inl e, w1)
                  | Inr data \<Rightarrow>
                      (case py_iter data of
                         Inl e \<Rightarrow> (Inl e, w1)
                       | Inr entries \<Rightarrow>
                           (case store_entries (slot k (cache w1)) entries of
                              (Some e, d) \<Rightarrow> (Inl e, w1\<lparr>cache := slot_update k d (cache w1)\<rparr>)
                            | (None, d) \<Rightarrow>
                                (case map_err (summary_line label field) entries of
                                   Inl e \<Rightarrow> (Inl e, w1\<lparr>cache := slot_update k d (cache w1)\<rparr>)
                                 | Inr lines \<Rightarrow>
                                     (Inr [TextContent (join [CHR 0x0A] lines)],
                                      w1\<lparr>cache := slot_update k d (cache w1)\<rparr>))))))
          else (Inr (error_result response), w1))"

text \<open>
  The body of a detail branch. \<^verbatim>\<open>arguments\<close> may be \<^verbatim>\<open>None\<close>, on which \<^verbatim>\<open>.get\<close>
  raises; \<^verbatim>\<open>if not report_id\<close> holds for a missing and for an empty identifier.
\<close>

definition fetch_entry ::
  "upstream \<Rightarrow> string \<Rightarrow> kind \<Rightarrow> string \<Rightarrow> (string \<rightharpoonup> string) option \<Rightarrow> world
     \<Rightarrow> (error + text_content list) \<times> world" where
  "fetch_entry client endpoint k arg arguments w =
     (case arguments of
        None \<Rightarrow> (Inl AttributeError, w)
      | Some args \<Rightarrow>
          (case args arg of
             None \<Rightarrow> (Inl (MissingArgument arg), w)
           | Some ident \<Rightarrow>
               if ident = [] then (Inl (MissingArgument arg), w)
               else
                 (let url = ORKL_BASE_URL @ endpoint @ ident;
                      w1 = w\<lparr>requests := requests w @ [url]\<rparr> in
                  case client url of
                    Inl e \<Rightarrow> (Inl e, w1)
                  | Inr response \<Rightarrow>
                      if status_code response = 200 then
                        (case response_json response of
                           Inl e \<Rightarrow> (Inl e, w1)
                         | Inr body \<Rightarrow>
                             (case py_get body ''data'' (JObj []) of
                                Inl e \<Rightarrow> (Inl e, w1)
                              | Inr details \<Rightarrow>
                                  (Inr [TextContent (json_dumps details)],
                                   w1\<lparr>cache := slot_update k
                                        (dict_setitem (slot k (cache w1)) (JStr ident) details)
                                        (cache w1)\<rparr>)))
                      else (Inr (error_result response), w1))))"

definition handle_call_tool ::
  "upstream \<Rightarrow> string \<Rightarrow> (string \<rightharpoonup> string) option \<Rightarrow> world
     \<Rightarrow> (error + text_content list) \<times> world" where
  "handle_call_tool client tool arguments w =
     (if tool = ''fetch_latest_threat_reports'' then
        fetch_entries client
          (ORKL_BASE_URL @ ''/library/entries?limit=5&order_by=created_at&order=desc'')
          Report ''Title'' ''title'' w
      else if tool = ''fetch_threat_report_details'' then
        fetch_entry client ''/library/entry/'' Report ''report_id'' arguments w
      else if tool = ''fetch_threat_actors'' then
        fetch_entries client (ORKL_BASE_URL @ ''/ta/entries'') Actor ''Name'' ''main_name'' w
      else if tool = ''fetch_threat_actor_details'' then
        fetch_entry client ''/ta/entry/'' Actor ''actor_id'' arguments w
      else if tool = ''fetch_sources'' then
        fetch_entries client (ORKL_BASE_URL @ ''/source/entries'') Source ''Name'' ''name'' w
      else if tool = ''fetch_source_details'' then
        fetch_entry client ''/source/entry/'' Source ''source_id'' arguments w
      else (Inl (UnknownTool tool), w))"

text \<open>The state of a freshly started server.\<close>

definition initial_world :: world where
  "initial_world = \<lparr>cache = empty_cache, requests = []\<rparr>"

section \<open>Vocabulary of the statements\<close>

text \<open>
  The tool, the identifier argument, the URLs and the display field that belong to each
  kind, as the branches of \<open>handle_call_tool\<close> and \<open>handle_list_resources\<close> pair
  them.
\<close>

fun list_tool :: "kind \<Rightarrow> string" where
  "list_tool Report = ''fetch_latest_threat_reports''"
| "list_tool Actor = ''fetch_threat_actors''"
| "list_tool Source = ''fetch_sources''"

fun detail_tool :: "kind \<Rightarrow> string" where
  "detail_tool Report = ''fetch_threat_report_details''"
| "detail_tool Actor = ''fetch_threat_actor_details''"
| "detail_tool Source = ''fetch_source_details''"

fun id_argument :: "kind \<Rightarrow> string" where
  "id_argument Report = ''report_id''"
| "id_argument Actor = ''actor_id''"
| "id_argument Source = ''source_id''"

fun list_url :: "kind \<Rightarrow> string" where
  "list_url Report =
     ''https://orkl.eu/api/v1/library/entries?limit=5&order_by=created_at&order=desc''"
| "list_url Actor = ''https://orkl.eu/api/v1/ta/entries''"
| "list_url Source = ''https://orkl.eu/api/v1/source/entries''"

fun detail_url :: "kind \<Rightarrow> string \<Rightarrow> string" where
  "detail_url Report i = ''https://orkl.eu/api/v1/library/entry/'' @ i"
| "detail_url Actor i = ''https://orkl.eu/api/v1/ta/entry/'' @ i"
| "detail_url Source i = ''https://orkl.eu/api/v1/source/entry/'' @ i"

fun display_field :: "kind \<Rightarrow> string" where
  "display_field Report = ''title''"
| "display_field Actor = ''main_name''"
| "display_field Source = ''name''"

fun detail_endpoint :: "kind \<Rightarrow> string" where
  "detail_endpoint Report = ''/library/entry/''"
| "detail_endpoint Actor = ''/ta/entry/''"
| "detail_endpoint Source = ''/source/entry/''"

text \<open>
  The identifier and a field of an entity, read as the handler reads them (\<^verbatim>\<open>e["id"]\<close>,
  \<^verbatim>\<open>e[field]\<close>); \<open>JNull\<close> stands in where the subscription would raise. An entity is
  well formed for a kind when both subscriptions succeed and the identifier can be a dict
  key.
\<close>

definition the_id :: "json \<Rightarrow> json" where
  "the_id e = (case py_getitem e ''id'' of Inr v \<Rightarrow> v | Inl err \<Rightarrow> JNull)"

definition the_field :: "string \<Rightarrow> json \<Rightarrow> json" where
  "the_field f e = (case py_getitem e f of Inr v \<Rightarrow> v | Inl err \<Rightarrow> JNull)"

definition well_formed :: "string \<Rightarrow> json \<Rightarrow> bool" where
  "well_formed f e =
     (case py_getitem e ''id'' of
        Inl err \<Rightarrow> False
      | Inr i \<Rightarrow> hashable i \<and> (case py_getitem e f of Inl err \<Rightarrow> False | Inr t \<Rightarrow> True))"

text \<open>
  The cache dict after the entities \<open>es\<close> were stored in order, each under its own
  identifier, and the last entity of \<open>es\<close> stored under a given identifier.
\<close>

definition write_all :: "pydict \<Rightarrow> json list \<Rightarrow> pydict" where
  "write_all d es = foldl (\<lambda>d e. dict_setitem d (the_id e) e) d es"

definition latest :: "json list \<Rightarrow> json \<Rightarrow> json" where
  "latest es i = last (filter (\<lambda>e. key_eq (the_id e) i) es)"

text \<open>The summary line of an entity, in the words of the specification.\<close>

fun label_of :: "kind \<Rightarrow> string" where
  "label_of Report = ''Title''"
| "label_of Actor = ''Name''"
| "label_of Source = ''Name''"

definition spec_summary :: "kind \<Rightarrow> json \<Rightarrow> string" where
  "spec_summary k e =
     ''ID: '' @ py_str (the_id e) @ '', '' @ label_of k @ '': ''
       @ py_str (the_field (display_field k) e)"

text \<open>
  A run of list calls. Each call is the upstream it meets, the kind whose list tool is
  invoked, and the arguments. The run goes on while every call is answered with status
  200 and returns a result; \<open>None\<close> says that some call was not of that sort.
  \<open>entities\<close> are the elements the handler iterates over in a response, and \<open>seen\<close>
  the entities of one kind that the responses of a run carried, in order.
\<close>

definition entities :: "response \<Rightarrow> json list" where
  "entities r =
     (case response_json r of
        Inl e \<Rightarrow> []
      | Inr body \<Rightarrow>
          (case py_get body ''data'' (JArr []) of
             Inl e \<Rightarrow> []
           | Inr data \<Rightarrow> (case py_iter data of Inl e \<Rightarrow> [] | Inr es \<Rightarrow> es)))"

type_synonym list_call = "upstream \<times> kind \<times> (string \<rightharpoonup> string) option"

fun run_list_calls :: "list_call list \<Rightarrow> world \<Rightarrow> world option" where
  "run_list_calls [] w = Some w"
| "run_list_calls ((client, k, arguments) # cs) w =
     (case client (list_url k) of
        Inl e \<Rightarrow> None
      | Inr r \<Rightarrow>
          if status_code r = 200 then
            (case handle_call_tool client (list_tool k) arguments w of
               (Inl e, w') \<Rightarrow> None
             | (Inr out, w') \<Rightarrow> run_list_calls cs w')
          else None)"

fun seen :: "kind \<Rightarrow> list_call list \<Rightarrow> json list" where
  "seen k [] = []"
| "seen k ((client, k', arguments) # cs) =
     (if k' = k then (case client (list_url k') of Inl e \<Rightarrow> [] | Inr r \<Rightarrow> entities r) else [])
       @ seen k cs"

text \<open>
  The listing as the specification words it. \<open>first_seen\<close> walks the identifiers in
  order and keeps each the first time it occurs; an entity is shown with its latest
  record, under the address and the name of its kind.
\<close>

definition first_seen :: "json list \<Rightarrow> json list" where
  "first_seen ids =
     foldl (\<lambda>acc i. if \<exists>a \<in> set acc. key_eq a i then acc else acc @ [i]) [] ids"

fun kind_segment :: "kind \<Rightarrow> string" where
  "kind_segment Report = ''report''"
| "kind_segment Actor = ''actor''"
| "kind_segment Source = ''source''"

fun name_prefix :: "kind \<Rightarrow> string" where
  "name_prefix Report = ''Threat Report: ''"
| "name_prefix Actor = ''Threat Actor: ''"
| "name_prefix Source = ''Source: ''"

fun description_prefix :: "kind \<Rightarrow> string" where
  "description_prefix Report = ''Threat report titled ''"
| "description_prefix Actor = ''Threat actor known as ''"
| "description_prefix Source = ''Source ''"

definition spec_resource :: "kind \<Rightarrow> json \<Rightarrow> json \<Rightarrow> resource" where
  "spec_resource k i e =
     \<lparr>uri = ''threat://'' @ kind_segment k @ ''/'' @ py_str i,
      name = name_prefix k @ py_str (the_field (display_field k) e),
      description = description_prefix k @ py_str (the_field (display_field k) e),
      mimeType = ''application/json''\<rparr>"

definition spec_listing :: "kind \<Rightarrow> json list \<Rightarrow> resource list" where
  "spec_listing k es = map (\<lambda>i. spec_resource k i (latest es i)) (first_seen (map the_id es))"

text \<open>
  The \<^verbatim>\<open>AnyUrl\<close> of an address \<^verbatim>\<open>threat://h/p\<close>: \<open>h\<close> is its host and the path is
  the rest, from the slash on. The addresses that \<open>handle_list_resources\<close> issues,
  \<^verbatim>\<open>threat://report/r1\<close> for one, have the kind as host and \<^verbatim>\<open>/r1\<close> as path.
\<close>

definition threat_url :: "string \<Rightarrow> string \<Rightarrow> any_url" where
  "threat_url h p = \<lparr>scheme = ''threat'', host = Some h, path = Some p\<rparr>"

text \<open>An upstream that answers every request with the same response.\<close>

definition stub :: "response \<Rightarrow> upstream" where
  "stub r url = Inr r"

text \<open>Sample responses and states used to run the statements on concrete inputs.\<close>

definition boom :: response where
  "boom = \<lparr>status_code = 500, response_text = ''boom'', response_json = Inl JSONDecodeError\<rparr>"

definition ok_response :: "json \<Rightarrow> response" where
  "ok_response body = \<lparr>status_code = 200, response_text = [], response_json = Inr body\<rparr>"

definition two_reports :: world where
  "two_reports =
     \<lparr>cache = \<lparr>threat_reports = [(JStr ''r1'', JObj [(''id'', JStr ''r1''), (''title'', JStr ''One'')]),
                                  (JStr ''r2'', JObj [(''id'', JStr ''r2''), (''title'', JStr ''Two'')])],
               threat_actors = [], sources = []\<rparr>,
      requests = []\<rparr>"

definition report_one :: json where
  "report_one = JObj [(''id'', JStr ''r1''), (''title'', JStr ''Report One'')]"

definition sample_calls :: "list_call list" where
  "sample_calls =
     [(stub (ok_response (JObj [(''data'', JArr [report_one,
          JObj [(''id'', JStr ''r2''), (''title'', JStr ''Two'')]])])), Report, None),
      (stub (ok_response (JObj [(''data'', JArr
          [JObj [(''id'', JStr ''a1''), (''main_name'', JStr ''APT'')]])])), Actor, None),
      (stub (ok_response (JObj [(''data'', JArr
          [JObj [(''id'', JStr ''r1''), (''title'', JStr ''One, revised'')]])])), Report, None)]"

definition sample_world :: world where
  "sample_world =
     \<lparr>cache =
        \<lparr>threat_reports =
           [(JStr ''r1'', JObj [(''id'', JStr ''r1''), (''title'', JStr ''One, revised'')]),
            (JStr ''r2'', JObj [(''id'', JStr ''r2''), (''title'', JStr ''Two'')])],
         threat_actors = [(JStr ''a1'', JObj [(''id'', JStr ''a1''), (''main_name'', JStr ''APT'')])],
         sources = []\<rparr>,
      requests = [list_url Report, list_url Actor, list_url Report]\<rparr>"

definition with_r1 :: "json \<Rightarrow> world" where
  "with_r1 v =
     \<lparr>cache = \<lparr>threat_reports = [(JStr ''r1'', v)], threat_actors = [], sources = []\<rparr>,
      requests = [''https://orkl.eu/api/v1/library/entry/r1'']\<rparr>"

section \<open>Basic facts\<close>

lemma handle_call_tool_list:
  "handle_call_tool client (list_tool k) arguments w =
     fetch_entries client (list_url k) k (label_of k) (display_field k) w"
  by (cases k) (simp_all add: handle_call_tool_def ORKL_BASE_URL_def)

lemma handle_call_tool_detail:
  "handle_call_tool client (detail_tool k) arguments w =
     fetch_entry client (detail_endpoint k) k (id_argument k) arguments w"
  by (cases k) (simp_all add: handle_call_tool_def)

lemma detail_url_eq: "ORKL_BASE_URL @ detail_endpoint k @ i = detail_url k i"
  by (cases k) (simp_all add: ORKL_BASE_URL_def)

lemma detail_without_mapping:
  "handle_call_tool client (detail_tool k) None w = (Inl AttributeError, w)"
  by (simp add: handle_call_tool_detail fetch_entry_def)

lemma detail_with_empty_identifier:
  "args (id_argument k) = Some [] \<Longrightarrow>
     handle_call_tool client (detail_tool k) (Some args) w
       = (Inl (MissingArgument (id_argument k)), w)"
  by (simp add: handle_call_tool_detail fetch_entry_def)

lemma key_eq_JStr [simp]: "key_eq (JStr i) j \<longleftrightarrow> j = JStr i"
  by (cases j) (auto simp: key_eq_def)

lemma key_eq_JStr2 [simp]: "key_eq j (JStr i) \<longleftrightarrow> j = JStr i"
  by (cases j) (auto simp: key_eq_def)

lemma dict_lookup_setitem:
  "dict_lookup (dict_setitem d k v) j = (if key_eq k j then Some v else dict_lookup d j)"
  by (induction d) (auto simp: key_eq_def)

lemma keys_setitem:
  "map fst (dict_setitem d k v) =
     (if \<exists>a \<in> set (map fst d). key_eq a k then map fst d else map fst d @ [k])"
  by (induction d) (simp, force)

lemma slot_slot_update: "slot k' (slot_update k d c) = (if k' = k then d else slot k' c)"
  by (cases k; cases k') simp_all

lemma fetch_entry_ok:
  assumes "args (id_argument k) = Some i" and "i \<noteq> []"
    and "client (detail_url k i) = Inr r" and "status_code r = 200"
    and "response_json r = Inr (JObj body)"
  shows "handle_call_tool client (detail_tool k) (Some args) w =
     (Inr [TextContent (json_dumps (case map_of body ''data'' of None \<Rightarrow> JObj [] | Some v \<Rightarrow> v))],
      w\<lparr>requests := requests w @ [detail_url k i],
        cache := slot_update k
          (dict_setitem (slot k (cache w)) (JStr i)
             (case map_of body ''data'' of None \<Rightarrow> JObj [] | Some v \<Rightarrow> v))
          (cache w)\<rparr>)"
proof -
  define d where "d = (case map_of body ''data'' of None \<Rightarrow> JObj [] | Some v \<Rightarrow> v)"
  have g: "py_get (JObj body) ''data'' (JObj []) = Inr d"
    by (simp add: d_def split: option.splits)
  show ?thesis
    unfolding d_def [symmetric]
    using assms g
    by (simp add: handle_call_tool_detail fetch_entry_def detail_url_eq Let_def
        del: py_get.simps)
qed

lemma store_entries_well_formed:
  "\<forall>e \<in> set es. well_formed f e \<Longrightarrow> store_entries d es = (None, write_all d es)"
proof (induction es arbitrary: d)
  case Nil
  then show ?case by (simp add: write_all_def)
next
  case (Cons e es)
  from Cons.prems obtain i where i: "py_getitem e ''id'' = Inr i" "hashable i"
    by (auto simp: well_formed_def split: sum.splits)
  from Cons.prems have "\<forall>e \<in> set es. well_formed f e" by simp
  from Cons.IH [OF this] i show ?case
    by (simp add: write_all_def the_id_def)
qed

lemma store_entries_None:
  "store_entries d es = (None, d') \<Longrightarrow>
     d' = write_all d es \<and> (\<forall>e \<in> set es. \<exists>i. py_getitem e ''id'' = Inr i \<and> hashable i)"
proof (induction es arbitrary: d)
  case Nil
  then show ?case by (simp add: write_all_def)
next
  case (Cons e es)
  then show ?case
    by (auto simp: write_all_def the_id_def split: sum.splits if_splits)
qed

lemma map_err_Inr:
  "\<forall>x \<in> set xs. f x = Inr (g x) \<Longrightarrow> map_err f xs = Inr (map g xs)"
  by (induction xs) simp_all

lemma map_err_Inr_D:
  "map_err f xs = Inr ys \<Longrightarrow> ys = map (\<lambda>x. case f x of Inr y \<Rightarrow> y) xs \<and> (\<forall>x \<in> set xs. \<exists>y. f x = Inr y)"
  by (induction xs arbitrary: ys) (auto split: sum.splits)

lemma summary_line_well_formed:
  "well_formed (display_field k) e \<Longrightarrow>
     summary_line (label_of k) (display_field k) e = Inr (spec_summary k e)"
  by (auto simp: well_formed_def summary_line_def spec_summary_def the_id_def the_field_def
      split: sum.splits)

lemma write_all_snoc: "write_all d (es @ [e]) = dict_setitem (write_all d es) (the_id e) e"
  by (simp add: write_all_def)

lemma write_all_append: "write_all d (es @ es') = write_all (write_all d es) es'"
  by (simp add: write_all_def)

lemma dict_lookup_write_all:
  "dict_lookup (write_all d es) j =
     (if \<exists>e \<in> set es. key_eq (the_id e) j then Some (latest es j) else dict_lookup d j)"
proof (induction es rule: rev_induct)
  case Nil
  then show ?case by (simp add: write_all_def)
next
  case (snoc e es)
  then show ?case
    by (auto simp: write_all_snoc dict_lookup_setitem latest_def)
qed


lemma fetch_entries_ok:
  assumes "client url = Inr r" and "status_code r = 200"
    and "response_json r = Inr (JObj body)"
    and "py_get (JObj body) ''data'' (JArr []) = Inr (JArr es)"
    and "\<forall>e \<in> set es. well_formed (display_field k) e"
  shows "fetch_entries client url k (label_of k) (display_field k) w =
     (Inr [TextContent (join [CHR 0x0A] (map (spec_summary k) es))],
      w\<lparr>requests := requests w @ [url],
        cache := slot_update k (write_all (slot k (cache w)) es) (cache w)\<rparr>)"
proof -
  have st: "store_entries (slot k (cache w)) es = (None, write_all (slot k (cache w)) es)"
    using assms(5) by (rule store_entries_well_formed)
  have ln: "map_err (summary_line (label_of k) (display_field k)) es
              = Inr (map (spec_summary k) es)"
    using assms(5) by (intro map_err_Inr) (simp add: summary_line_well_formed)
  show ?thesis
    using assms(1-4) st ln
    by (simp add: fetch_entries_def Let_def del: py_get.simps)
qed

lemma first_seen_snoc:
  "first_seen (ids @ [i]) =
     (if \<exists>a \<in> set (first_seen ids). key_eq a i then first_seen ids else first_seen ids @ [i])"
  by (simp add: first_seen_def)

lemma first_seen_Nil [simp]: "first_seen [] = []"
  by (simp add: first_seen_def)

lemma first_seen_distinct: "distinct (map key_norm (first_seen ids))"
  by (induction ids rule: rev_induct) (auto simp: first_seen_snoc key_eq_def)

lemma first_seen_subset: "set (first_seen ids) \<subseteq> set ids"
  by (induction ids rule: rev_induct) (auto simp: first_seen_snoc)

lemma key_eq_refl [simp]: "key_eq a a"
  by (simp add: key_eq_def)

lemma first_seen_covers: "key_norm ` set (first_seen ids) = key_norm ` set ids"
proof (induction ids rule: rev_induct)
  case Nil
  then show ?case by simp
next
  case (snoc i ids)
  show ?case
  proof (cases "\<exists>a \<in> set (first_seen ids). key_eq a i")
    case True
    then obtain a where "a \<in> set (first_seen ids)" and "key_norm a = key_norm i"
      by (auto simp: key_eq_def)
    then have "key_norm i \<in> key_norm ` set (first_seen ids)"
      by (metis imageI)
    with True snoc show ?thesis
      by (auto simp: first_seen_snoc)
  next
    case False
    with snoc show ?thesis
      by (simp add: first_seen_snoc)
  qed
qed

lemma dict_setitem_table:
  "distinct (map key_norm F) \<Longrightarrow>
     dict_setitem (map (\<lambda>i. (i, g i)) F) k v =
       (if \<exists>a \<in> set F. key_eq a k then map (\<lambda>i. (i, if key_eq i k then v else g i)) F
        else map (\<lambda>i. (i, g i)) F @ [(k, v)])"
proof (induction F)
  case Nil
  then show ?case by simp
next
  case (Cons a F)
  show ?case
  proof (cases "key_eq a k")
    case True
    have "\<forall>i \<in> set F. \<not> key_eq i k"
    proof
      fix i assume "i \<in> set F"
      then have "key_norm i \<in> key_norm ` set F" by (rule imageI)
      with Cons.prems have "key_norm i \<noteq> key_norm a" by auto
      with True show "\<not> key_eq i k" by (simp add: key_eq_def)
    qed
    with True show ?thesis by simp
  next
    case False
    with Cons show ?thesis by simp
  qed
qed

lemma latest_snoc:
  "latest (es @ [e]) i = (if key_eq (the_id e) i then e else latest es i)"
  by (simp add: latest_def)

lemma key_eq_sym: "key_eq a b \<longleftrightarrow> key_eq b a"
  by (auto simp: key_eq_def)

lemma write_all_table:
  "write_all [] es = map (\<lambda>i. (i, latest es i)) (first_seen (map the_id es))"
proof (induction es rule: rev_induct)
  case Nil
  then show ?case by (simp add: write_all_def)
next
  case (snoc e es)
  let ?F = "first_seen (map the_id es)"
  have d: "distinct (map key_norm ?F)" by (rule first_seen_distinct)
  show ?case
  proof (cases "\<exists>a \<in> set ?F. key_eq a (the_id e)")
    case True
    then show ?thesis
      by (simp add: write_all_snoc snoc.IH dict_setitem_table [OF d] first_seen_snoc latest_snoc
          key_eq_sym [of "the_id e"])
  next
    case False
    then have "\<forall>i \<in> set ?F. \<not> key_eq (the_id e) i"
      by (simp add: key_eq_sym [of "the_id e"])
    with False show ?thesis
      by (simp add: write_all_snoc snoc.IH dict_setitem_table [OF d] first_seen_snoc latest_snoc)
  qed
qed


lemma summary_line_Inr_D:
  "summary_line l f e = Inr y \<Longrightarrow> \<exists>t. py_getitem e f = Inr t"
  by (auto simp: summary_line_def split: sum.splits)

lemma fetch_entries_success:
  assumes "client url = Inr r" and "status_code r = 200"
    and "fetch_entries client url k l f w = (Inr out, w')"
  shows "cache w' = slot_update k (write_all (slot k (cache w)) (entities r)) (cache w)
     \<and> (\<forall>e \<in> set (entities r). well_formed f e)"
proof -
  from assms obtain body where body: "response_json r = Inr body"
    by (auto simp: fetch_entries_def Let_def split: sum.splits)
  from assms body obtain data where data: "py_get body ''data'' (JArr []) = Inr data"
    by (auto simp: fetch_entries_def Let_def split: sum.splits)
  from assms body data obtain es where es: "py_iter data = Inr es"
    by (auto simp: fetch_entries_def Let_def split: sum.splits)
  have ent: "entities r = es"
    by (simp add: entities_def body data es)
  from assms body data es obtain d lines
    where st: "store_entries (slot k (cache w)) es = (None, d)"
      and ln: "map_err (summary_line l f) es = Inr lines"
      and w': "cache w' = slot_update k d (cache w)"
    by (auto simp: fetch_entries_def Let_def split: sum.splits option.splits prod.splits)
  from store_entries_None [OF st]
  have d: "d = write_all (slot k (cache w)) es"
    and ids: "\<forall>e \<in> set es. \<exists>i. py_getitem e ''id'' = Inr i \<and> hashable i"
    by simp_all
  from map_err_Inr_D [OF ln] have "\<forall>e \<in> set es. \<exists>y. summary_line l f e = Inr y"
    by simp
  then have flds: "\<forall>e \<in> set es. \<exists>t. py_getitem e f = Inr t"
    by (blast dest: summary_line_Inr_D)
  have "\<forall>e \<in> set es. well_formed f e"
  proof
    fix e assume e: "e \<in> set es"
    with ids obtain i where "py_getitem e ''id'' = Inr i" "hashable i" by blast
    moreover from flds e obtain t where "py_getitem e f = Inr t" by blast
    ultimately show "well_formed f e" by (simp add: well_formed_def)
  qed
  with w' d ent show ?thesis by simp
qed

lemma seen_Cons_other:
  "k' \<noteq> k \<Longrightarrow> seen k ((client, k', arguments) # cs) = seen k cs"
  by simp

lemma run_list_calls_tables:
  "run_list_calls cs w = Some w' \<Longrightarrow>
     slot k (cache w') = write_all (slot k (cache w)) (seen k cs)
     \<and> (\<forall>e \<in> set (seen k cs). well_formed (display_field k) e)"
proof (induction cs arbitrary: w)
  case Nil
  then show ?case by (simp add: write_all_def)
next
  case (Cons c cs)
  obtain client k' arguments where c: "c = (client, k', arguments)"
    by (cases c) auto
  from Cons.prems c obtain r out w1
    where r: "client (list_url k') = Inr r" and st: "status_code r = 200"
      and call: "handle_call_tool client (list_tool k') arguments w = (Inr out, w1)"
      and rest: "run_list_calls cs w1 = Some w'"
    by (auto split: sum.splits if_splits prod.splits)
  from call have "fetch_entries client (list_url k') k' (label_of k') (display_field k') w
                    = (Inr out, w1)"
    by (simp add: handle_call_tool_list)
  from fetch_entries_success [OF r st this]
  have w1: "cache w1 = slot_update k' (write_all (slot k' (cache w)) (entities r)) (cache w)"
    and wf: "\<forall>e \<in> set (entities r). well_formed (display_field k') e"
    by simp_all
  from Cons.IH [OF rest]
  have ih: "slot k (cache w') = write_all (slot k (cache w1)) (seen k cs)"
    and ihwf: "\<forall>e \<in> set (seen k cs). well_formed (display_field k) e"
    by simp_all
  show ?case
  proof (cases "k' = k")
    case True
    with ih ihwf w1 wf r c show ?thesis
      by (auto simp: slot_slot_update write_all_append)
  next
    case False
    with ih ihwf w1 c show ?thesis
      by (simp add: slot_slot_update)
  qed
qed

lemma latest_in_set:
  "\<exists>e \<in> set es. key_eq (the_id e) i \<Longrightarrow> latest es i \<in> set es \<and> key_eq (the_id (latest es i)) i"
proof -
  assume "\<exists>e \<in> set es. key_eq (the_id e) i"
  then have ne: "filter (\<lambda>e. key_eq (the_id e) i) es \<noteq> []"
    by (simp add: filter_empty_conv)
  from last_in_set [OF ne] show ?thesis
    by (simp add: latest_def)
qed

lemma resource_of_well_formed:
  "well_formed (display_field k) e \<Longrightarrow>
     (case k of Report \<Rightarrow> report_resource | Actor \<Rightarrow> actor_resource | Source \<Rightarrow> source_resource)
       (i, e) = Inr (spec_resource k i e)"
  by (cases k)
    (auto simp: well_formed_def report_resource_def actor_resource_def source_resource_def
      spec_resource_def the_field_def split: sum.splits)

lemma listing_of_table:
  assumes "\<forall>e \<in> set es. well_formed (display_field k) e"
  shows "map_err (case k of Report \<Rightarrow> report_resource | Actor \<Rightarrow> actor_resource
                   | Source \<Rightarrow> source_resource) (write_all [] es)
           = Inr (spec_listing k es)"
proof -
  let ?F = "first_seen (map the_id es)"
  let ?f = "case k of Report \<Rightarrow> report_resource | Actor \<Rightarrow> actor_resource
              | Source \<Rightarrow> source_resource"
  have "\<forall>x \<in> set (write_all [] es). ?f x = Inr (spec_resource k (fst x) (snd x))"
  proof
    fix x assume "x \<in> set (write_all [] es)"
    then obtain i where i: "i \<in> set ?F" and x: "x = (i, latest es i)"
      by (auto simp: write_all_table)
    from i first_seen_subset have "i \<in> set (map the_id es)" by blast
    then obtain e where "e \<in> set es" and "key_eq (the_id e) i" by auto
    then have "\<exists>e \<in> set es. key_eq (the_id e) i" by blast
    from latest_in_set [OF this] assms have "well_formed (display_field k) (latest es i)"
      by blast
    from resource_of_well_formed [OF this] x
    show "?f x = Inr (spec_resource k (fst x) (snd x))" by simp
  qed
  from map_err_Inr [OF this]
  show ?thesis
    by (simp add: spec_listing_def write_all_table o_def)
qed

lemma read_other_scheme:
  "scheme u \<noteq> ''threat'' \<Longrightarrow> handle_read_resource c u = Inl (InvalidAddress (scheme u))"
  by (simp add: handle_read_resource_def)

lemma read_decoded:
  assumes "scheme u = ''threat''" and "path u = Some p"
    and "str_split CHR ''/'' (str_strip CHR ''/'' p) = t # i # rest"
  shows "handle_read_resource c u =
     (if t = ''report'' then Inr (json_dumps (get_or_empty (threat_reports c) i))
      else if t = ''actor'' then Inr (json_dumps (get_or_empty (threat_actors c) i))
      else if t = ''source'' then Inr (json_dumps (get_or_empty (sources c) i))
      else Inl (UnknownResourceType t))"
  using assms by (simp add: handle_read_resource_def)

lemma read_one_segment:
  assumes "scheme u = ''threat''" and "path u = Some p"
    and "str_split CHR ''/'' (str_strip CHR ''/'' p) = [t]"
  shows "handle_read_resource c u = Inl IndexError"
  using assms by (simp add: handle_read_resource_def)

lemma str_split_no_sep: "c \<notin> set s \<Longrightarrow> str_split c s = [s]"
  by (induction s) auto

lemma str_split_append_sep:
  "c \<notin> set a \<Longrightarrow> str_split c (a @ c # b) = a # str_split c b"
  by (induction a) auto

lemma dropWhile_no_sep: "s \<noteq> [] \<Longrightarrow> c \<notin> set s \<Longrightarrow> dropWhile (\<lambda>x. x = c) (s @ t) = s @ t"
  by (cases s) auto

lemma str_strip_two_segments:
  assumes "a \<noteq> []" and "c \<notin> set a" and "b \<noteq> []" and "c \<notin> set b"
  shows "str_strip c (c # a @ c # b) = a @ c # b"
proof -
  have 1: "dropWhile (\<lambda>x. x = c) (c # a @ c # b) = a @ c # b"
    using assms(1,2) by (simp add: dropWhile_no_sep)
  have "dropWhile (\<lambda>x. x = c) (rev b @ (c # rev a)) = rev b @ (c # rev a)"
    using assms(3,4) by (intro dropWhile_no_sep) auto
  then have 2: "dropWhile (\<lambda>x. x = c) (rev (a @ c # b)) = rev (a @ c # b)"
    by simp
  show ?thesis
    by (simp only: str_strip_def 1 2 rev_rev_ident)
qed

lemma kind_segment_plain: "kind_segment k \<noteq> [] \<and> CHR ''/'' \<notin> set (kind_segment k)"
  by (cases k) simp_all

lemma read_path_of_kind_and_id:
  assumes "scheme u = ''threat''"
    and "path u = Some (''/'' @ kind_segment k @ ''/'' @ i)"
    and "i \<noteq> []" and "CHR ''/'' \<notin> set i"
  shows "handle_read_resource c u = Inr (json_dumps (get_or_empty (slot k c) i))"
proof -
  have "str_split CHR ''/'' (str_strip CHR ''/'' (''/'' @ kind_segment k @ ''/'' @ i))
          = [kind_segment k, i]"
    using assms(3,4) kind_segment_plain [of k]
    by (simp add: str_strip_two_segments str_split_append_sep str_split_no_sep)
  with assms(1,2) show ?thesis
    by (cases k) (simp_all add: handle_read_resource_def)
qed

text \<open>
  On a uri whose path carries the kind and the identifier, reading returns the empty
  object for an identifier that is not cached, and returns what a detail call has just
  stored.
\<close>

lemma cache_miss_on_path:
  assumes "scheme u = ''threat''"
    and "path u = Some (''/'' @ kind_segment k @ ''/'' @ i)"
    and "i \<noteq> []" and "CHR ''/'' \<notin> set i"
    and "dict_lookup (slot k c) (JStr i) = None"
  shows "handle_read_resource c u = Inr ''{}''"
  using read_path_of_kind_and_id [OF assms(1-4), of c] assms(5)
  by (simp add: get_or_empty_def json_dumps_def)

lemma round_trip_on_path:
  assumes "args (id_argument k) = Some i" and "i \<noteq> []" and "CHR ''/'' \<notin> set i"
    and "client (detail_url k i) = Inr r" and "status_code r = 200"
    and "response_json r = Inr (JObj body)" and "map_of body ''data'' = Some d"
    and "handle_call_tool client (detail_tool k) (Some args) w = (res, w')"
    and "scheme u = ''threat''"
    and "path u = Some (''/'' @ kind_segment k @ ''/'' @ i)"
  shows "res = Inr [TextContent (json_dumps d)]
     \<and> handle_read_resource (cache w') u = Inr (json_dumps d)"
proof -
  from fetch_entry_ok [of args k i client r body w] assms(1,2,4-8)
  have res: "res = Inr [TextContent (json_dumps d)]"
    and w': "cache w' = slot_update k (dict_setitem (slot k (cache w)) (JStr i) d) (cache w)"
    by auto
  from read_path_of_kind_and_id [OF assms(9,10) assms(2,3), of "cache w'"]
  have "handle_read_resource (cache w') u = Inr (json_dumps d)"
    by (simp add: w' slot_slot_update get_or_empty_def dict_lookup_setitem)
  with res show ?thesis
    by simp
qed

section \<open>The tool dispatcher\<close>

text \<open>
  Claim C9. A tool name that is none of the six that \<open>list_tools\<close> declares makes the
  dispatcher raise the unknown-tool error, whatever the arguments, the upstream and the
  state are; the state is left as it was.
\<close>

theorem unknown_tool_rejected:
  "tool \<notin> set (map fst list_tools) \<Longrightarrow>
     handle_call_tool client tool arguments w = (Inl (UnknownTool tool), w)"
  by (simp add: list_tools_def handle_call_tool_def)

theorem unknown_tool_rejected_witness:
  "''fetch_everything'' \<notin> set (map fst list_tools) \<and>
   handle_call_tool (stub boom) ''fetch_everything'' None initial_world
     = (Inl (ValueError ''Unknown tool: fetch_everything''), initial_world)"
proof -
  have h: "''fetch_everything'' \<notin> set (map fst list_tools)"
    by (simp add: list_tools_def)
  show ?thesis
    using h unknown_tool_rejected [OF h, of "stub boom" None initial_world]
    by (simp add: UnknownTool_def)
qed

text \<open>
  Claim C4. A detail tool whose argument mapping has no entry for the tool's identifier
  argument raises the missing-argument error. The state returned is the state given: no
  URL was requested and the cache is untouched. The upstream is arbitrary, so the outcome
  does not depend on it.
\<close>

theorem missing_identifier_before_network:
  "args (id_argument k) = None \<Longrightarrow>
     handle_call_tool client (detail_tool k) (Some args) w
       = (Inl (MissingArgument (id_argument k)), w)"
  by (simp add: handle_call_tool_detail fetch_entry_def)

theorem missing_identifier_before_network_witness:
  "map_of [(''limit'', ''5'')] (id_argument Report) = None \<and>
   handle_call_tool (stub boom) ''fetch_threat_report_details''
       (Some (map_of [(''limit'', ''5'')])) two_reports
     = (Inl (ValueError ''report_id is required.''), two_reports)"
  using missing_identifier_before_network
    [of "map_of [(''limit'', ''5'')]" Report "stub boom" two_reports]
  by (simp add: MissingArgument_def)

text \<open>
  Claim C3. When the upstream answers a tool's request with a status other than 200, the
  call returns one text block, \<^verbatim>\<open>Error: \<close> followed by the status and the raw body,
  and raises nothing. The only change to the state is the logged request: the cache is
  the one given. This holds for the three list tools (first part) and, once the identifier
  is supplied so that a request is made at all, for the three detail tools (second part).
\<close>

theorem upstream_error_recovered:
  "(client (list_url k) = Inr r \<and> status_code r \<noteq> 200 \<longrightarrow>
      handle_call_tool client (list_tool k) arguments w
        = (Inr [TextContent (''Error: '' @ show_int (status_code r) @ '' '' @ response_text r)],
           w\<lparr>requests := requests w @ [list_url k]\<rparr>))
   \<and> (args (id_argument k) = Some i \<and> i \<noteq> [] \<and> client (detail_url k i) = Inr r
        \<and> status_code r \<noteq> 200 \<longrightarrow>
      handle_call_tool client (detail_tool k) (Some args) w
        = (Inr [TextContent (''Error: '' @ show_int (status_code r) @ '' '' @ response_text r)],
           w\<lparr>requests := requests w @ [detail_url k i]\<rparr>))"
  by (simp add: handle_call_tool_list handle_call_tool_detail fetch_entries_def fetch_entry_def
      detail_url_eq error_result_def Let_def)

theorem upstream_error_recovered_witness:
  "stub boom (list_url Source) = Inr boom \<and> status_code boom \<noteq> 200
   \<and> handle_call_tool (stub boom) ''fetch_sources'' None two_reports
       = (Inr [TextContent ''Error: 500 boom''],
          two_reports\<lparr>requests := [''https://orkl.eu/api/v1/source/entries'']\<rparr>)
   \<and> map_of [(''source_id'', ''s1'')] (id_argument Source) = Some ''s1'' \<and> ''s1'' \<noteq> []
   \<and> stub boom (detail_url Source ''s1'') = Inr boom
   \<and> handle_call_tool (stub boom) ''fetch_source_details''
         (Some (map_of [(''source_id'', ''s1'')])) two_reports
       = (Inr [TextContent ''Error: 500 boom''],
          two_reports\<lparr>requests := [''https://orkl.eu/api/v1/source/entry/s1'']\<rparr>)"
  using upstream_error_recovered
    [of "stub boom" Source boom None two_reports "map_of [(''source_id'', ''s1'')]" "''s1''"]
  by (simp add: stub_def boom_def two_reports_def show_int_def digit_char_def)

text \<open>
  Claim C10. A detail call that succeeds (the identifier \<open>i\<close> is supplied, the upstream
  answers 200 with a JSON object) returns the serialised record and touches one cache
  entry only: the entry \<open>i\<close> of the tool's kind now holds the \<^verbatim>\<open>data\<close> value of the
  response, or the empty object when the response has no \<^verbatim>\<open>data\<close>, whatever was
  cached there before. Every other key of that kind reads as before, the dicts of the
  other kinds are unchanged, and the keys keep their order, with \<open>i\<close> appended when new.
\<close>

theorem detail_fetch_frame:
  assumes "args (id_argument k) = Some i" and "i \<noteq> []"
    and "client (detail_url k i) = Inr r" and "status_code r = 200"
    and "response_json r = Inr (JObj body)"
    and "handle_call_tool client (detail_tool k) (Some args) w = (res, w')"
  shows "res = Inr [TextContent (json_dumps
                 (case map_of body ''data'' of None \<Rightarrow> JObj [] | Some v \<Rightarrow> v))]
     \<and> dict_lookup (slot k (cache w')) (JStr i)
          = Some (case map_of body ''data'' of None \<Rightarrow> JObj [] | Some v \<Rightarrow> v)
     \<and> (\<forall>j. j \<noteq> JStr i \<longrightarrow>
            dict_lookup (slot k (cache w')) j = dict_lookup (slot k (cache w)) j)
     \<and> (\<forall>k'. k' \<noteq> k \<longrightarrow> slot k' (cache w') = slot k' (cache w))
     \<and> map fst (slot k (cache w'))
          = (if JStr i \<in> set (map fst (slot k (cache w))) then map fst (slot k (cache w))
             else map fst (slot k (cache w)) @ [JStr i])"
proof -
  define d where "d = (case map_of body ''data'' of None \<Rightarrow> JObj [] | Some v \<Rightarrow> v)"
  from fetch_entry_ok [of args k i client r body w] assms
  have res: "res = Inr [TextContent (json_dumps d)]"
    and w': "cache w' = slot_update k (dict_setitem (slot k (cache w)) (JStr i) d) (cache w)"
    by (auto simp: d_def)
  show ?thesis
    unfolding d_def [symmetric]
    by (simp add: res w' slot_slot_update dict_lookup_setitem keys_setitem)
qed

theorem detail_fetch_frame_witness:
  "map_of [(''report_id'', ''r1'')] (id_argument Report) = Some ''r1'' \<and> ''r1'' \<noteq> []
   \<and> stub (ok_response (JObj [])) (detail_url Report ''r1'') = Inr (ok_response (JObj []))
   \<and> status_code (ok_response (JObj [])) = 200
   \<and> response_json (ok_response (JObj [])) = Inr (JObj [])
   \<and> handle_call_tool (stub (ok_response (JObj []))) ''fetch_threat_report_details''
         (Some (map_of [(''report_id'', ''r1'')])) two_reports
       = (Inr [TextContent ''{}''],
          two_reports\<lparr>requests := [''https://orkl.eu/api/v1/library/entry/r1''],
            cache := (cache two_reports)\<lparr>threat_reports :=
              [(JStr ''r1'', JObj []),
               (JStr ''r2'', JObj [(''id'', JStr ''r2''), (''title'', JStr ''Two'')])]\<rparr>\<rparr>)
   \<and> dict_lookup (slot Report (cache (snd (handle_call_tool (stub (ok_response (JObj [])))
         ''fetch_threat_report_details'' (Some (map_of [(''report_id'', ''r1'')])) two_reports))))
         (JStr ''r1'') = Some (JObj [])
   \<and> dict_lookup (slot Report (cache (snd (handle_call_tool (stub (ok_response (JObj [])))
         ''fetch_threat_report_details'' (Some (map_of [(''report_id'', ''r1'')])) two_reports))))
         (JStr ''r2'') = dict_lookup (slot Report (cache two_reports)) (JStr ''r2'')
   \<and> map fst (slot Report (cache (snd (handle_call_tool (stub (ok_response (JObj [])))
         ''fetch_threat_report_details'' (Some (map_of [(''report_id'', ''r1'')])) two_reports))))
       = [JStr ''r1'', JStr ''r2'']"
  using detail_fetch_frame
    [of "map_of [(''report_id'', ''r1'')]" Report "''r1''" "stub (ok_response (JObj []))"
        "ok_response (JObj [])" "[]" two_reports
        "fst (handle_call_tool (stub (ok_response (JObj []))) ''fetch_threat_report_details''
                (Some (map_of [(''report_id'', ''r1'')])) two_reports)"
        "snd (handle_call_tool (stub (ok_response (JObj []))) ''fetch_threat_report_details''
                (Some (map_of [(''report_id'', ''r1'')])) two_reports)"]
  by (simp add: stub_def ok_response_def two_reports_def handle_call_tool_def fetch_entry_def
      ORKL_BASE_URL_def json_dumps_def key_eq_def)

text \<open>
  Claim C6, as amended. A list tool whose upstream answers 200 with a JSON object, where
  the \<^verbatim>\<open>data\<close> array (the empty array when the field is absent) holds only well-formed
  entities, returns one text block: the summary lines of the entities in array order,
  joined by newlines. The cache dict of the tool's kind is the old one with the entities
  stored in order, so each entity's identifier now reads the last entity of the array
  with that identifier, identifiers that are not in the array read as before, and the
  other dicts are unchanged. With no \<^verbatim>\<open>data\<close> field the text is empty and nothing is
  written.
\<close>

theorem list_fetch_writes_and_summarises:
  assumes "client (list_url k) = Inr r" and "status_code r = 200"
    and "response_json r = Inr (JObj body)"
    and "py_get (JObj body) ''data'' (JArr []) = Inr (JArr es)"
    and "\<forall>e \<in> set es. well_formed (display_field k) e"
    and "handle_call_tool client (list_tool k) arguments w = (res, w')"
  shows "res = Inr [TextContent (join [CHR 0x0A] (map (spec_summary k) es))]
     \<and> slot k (cache w') = write_all (slot k (cache w)) es
     \<and> (\<forall>e \<in> set es. dict_lookup (slot k (cache w')) (the_id e) = Some (latest es (the_id e)))
     \<and> (\<forall>j. (\<forall>e \<in> set es. \<not> key_eq (the_id e) j) \<longrightarrow>
            dict_lookup (slot k (cache w')) j = dict_lookup (slot k (cache w)) j)
     \<and> (\<forall>k'. k' \<noteq> k \<longrightarrow> slot k' (cache w') = slot k' (cache w))
     \<and> requests w' = requests w @ [list_url k]"
proof -
  from fetch_entries_ok [of client "list_url k" r body es k w] assms
  have res: "res = Inr [TextContent (join [CHR 0x0A] (map (spec_summary k) es))]"
    and w': "w' = w\<lparr>requests := requests w @ [list_url k],
                   cache := slot_update k (write_all (slot k (cache w)) es) (cache w)\<rparr>"
    by (simp_all add: handle_call_tool_list)
  have sl: "slot k (cache w') = write_all (slot k (cache w)) es"
    by (simp add: w' slot_slot_update)
  have other: "\<forall>k'. k' \<noteq> k \<longrightarrow> slot k' (cache w') = slot k' (cache w)"
    by (simp add: w' slot_slot_update)
  have rq: "requests w' = requests w @ [list_url k]"
    by (simp add: w')
  have hit: "\<forall>e \<in> set es. dict_lookup (slot k (cache w')) (the_id e) = Some (latest es (the_id e))"
    unfolding sl dict_lookup_write_all by (auto simp: key_eq_def)
  have miss: "\<forall>j. (\<forall>e \<in> set es. \<not> key_eq (the_id e) j) \<longrightarrow>
            dict_lookup (slot k (cache w')) j = dict_lookup (slot k (cache w)) j"
    unfolding sl dict_lookup_write_all by simp
  from res sl hit miss other rq show ?thesis by blast
qed

theorem list_fetch_writes_and_summarises_witness:
  "stub (ok_response (JObj [(''data'', JArr [report_one])])) (list_url Report)
       = Inr (ok_response (JObj [(''data'', JArr [report_one])]))
   \<and> status_code (ok_response (JObj [(''data'', JArr [report_one])])) = 200
   \<and> response_json (ok_response (JObj [(''data'', JArr [report_one])]))
       = Inr (JObj [(''data'', JArr [report_one])])
   \<and> py_get (JObj [(''data'', JArr [report_one])]) ''data'' (JArr []) = Inr (JArr [report_one])
   \<and> well_formed (display_field Report) report_one
   \<and> handle_call_tool (stub (ok_response (JObj [(''data'', JArr [report_one])])))
         ''fetch_latest_threat_reports'' None initial_world
       = (Inr [TextContent ''ID: r1, Title: Report One''],
          \<lparr>cache = \<lparr>threat_reports = [(JStr ''r1'', report_one)],
                    threat_actors = [], sources = []\<rparr>,
           requests = [''https://orkl.eu/api/v1/library/entries?limit=5&order_by=created_at&order=desc'']\<rparr>)
   \<and> py_get (JObj []) ''data'' (JArr []) = Inr (JArr [])
   \<and> handle_call_tool (stub (ok_response (JObj []))) ''fetch_sources'' None two_reports
       = (Inr [TextContent []],
          two_reports\<lparr>requests := [''https://orkl.eu/api/v1/source/entries'']\<rparr>)"
  using list_fetch_writes_and_summarises
    [of "stub (ok_response (JObj [(''data'', JArr [report_one])]))" Report
        "ok_response (JObj [(''data'', JArr [report_one])])" "[(''data'', JArr [report_one])]"
        "[report_one]" None initial_world
        "fst (handle_call_tool (stub (ok_response (JObj [(''data'', JArr [report_one])])))
                ''fetch_latest_threat_reports'' None initial_world)"
        "snd (handle_call_tool (stub (ok_response (JObj [(''data'', JArr [report_one])])))
                ''fetch_latest_threat_reports'' None initial_world)"]
    list_fetch_writes_and_summarises
    [of "stub (ok_response (JObj []))" Source "ok_response (JObj [])" "[]" "[]" None two_reports
        "fst (handle_call_tool (stub (ok_response (JObj []))) ''fetch_sources'' None two_reports)"
        "snd (handle_call_tool (stub (ok_response (JObj []))) ''fetch_sources'' None two_reports)"]
  by (simp add: stub_def ok_response_def report_one_def well_formed_def handle_call_tool_def
      fetch_entries_def initial_world_def empty_cache_def two_reports_def ORKL_BASE_URL_def
      summary_line_def spec_summary_def the_id_def the_field_def TextContent_def)

text \<open>
  The claim as first stated asks for nothing of the entities. An entity without
  \<^verbatim>\<open>title\<close> makes the call raise \<^verbatim>\<open>KeyError\<close> after the entity was cached.
\<close>

theorem list_fetch_missing_title_counterexample:
  "handle_call_tool (stub (ok_response (JObj [(''data'', JArr [JObj [(''id'', JStr ''r1'')]])])))
      ''fetch_latest_threat_reports'' None initial_world
     = (Inl (KeyError ''title''),
        \<lparr>cache = \<lparr>threat_reports = [(JStr ''r1'', JObj [(''id'', JStr ''r1'')])],
                  threat_actors = [], sources = []\<rparr>,
         requests = [''https://orkl.eu/api/v1/library/entries?limit=5&order_by=created_at&order=desc'']\<rparr>)"
  by (simp add: handle_call_tool_def fetch_entries_def stub_def ok_response_def
      initial_world_def empty_cache_def ORKL_BASE_URL_def summary_line_def)

section \<open>Resource listing\<close>

text \<open>
  Claim C5. After any run of successful list calls on a freshly started server,
  \<open>handle_list_resources\<close> returns one resource for each identifier seen, once: first
  the reports, then the actors, then the sources, each group in the order in which the
  identifiers were first seen (a later record for the same identifier changes the name
  shown, not the position). The names are \<^verbatim>\<open>Threat Report: \<close>, \<^verbatim>\<open>Threat Actor: \<close>
  and \<^verbatim>\<open>Source: \<close> followed by the display field. That \<open>first_seen\<close> lists every
  identifier seen, and none twice, is \<open>first_seen_covers\<close> and \<open>first_seen_distinct\<close>.
\<close>

theorem listing_complete_and_ordered:
  assumes "run_list_calls cs initial_world = Some w"
  shows "handle_list_resources (cache w) =
           Inr (spec_listing Report (seen Report cs) @ spec_listing Actor (seen Actor cs)
                @ spec_listing Source (seen Source cs))"
proof -
  have tab: "slot k (cache w) = write_all [] (seen k cs)"
    and wf: "\<forall>e \<in> set (seen k cs). well_formed (display_field k) e" for k
    using run_list_calls_tables [OF assms, of k]
    by (cases k; simp add: initial_world_def empty_cache_def)+
  from listing_of_table [OF wf [of Report]] tab [of Report]
  have r: "map_err report_resource (threat_reports (cache w))
             = Inr (spec_listing Report (seen Report cs))" by simp
  from listing_of_table [OF wf [of Actor]] tab [of Actor]
  have a: "map_err actor_resource (threat_actors (cache w))
             = Inr (spec_listing Actor (seen Actor cs))" by simp
  from listing_of_table [OF wf [of Source]] tab [of Source]
  have s: "map_err source_resource (sources (cache w))
             = Inr (spec_listing Source (seen Source cs))" by simp
  show ?thesis
    by (simp add: handle_list_resources_def r a s)
qed

theorem listing_complete_and_ordered_witness:
  "run_list_calls sample_calls initial_world = Some sample_world
   \<and> handle_list_resources (cache sample_world) =
       Inr [\<lparr>uri = ''threat://report/r1'', name = ''Threat Report: One, revised'',
             description = ''Threat report titled One, revised'',
             mimeType = ''application/json''\<rparr>,
            \<lparr>uri = ''threat://report/r2'', name = ''Threat Report: Two'',
             description = ''Threat report titled Two'', mimeType = ''application/json''\<rparr>,
            \<lparr>uri = ''threat://actor/a1'', name = ''Threat Actor: APT'',
             description = ''Threat actor known as APT'', mimeType = ''application/json''\<rparr>]"
proof -
  have run: "run_list_calls sample_calls initial_world = Some sample_world"
    by (simp add: sample_calls_def sample_world_def initial_world_def empty_cache_def
        stub_def ok_response_def report_one_def handle_call_tool_def fetch_entries_def
        ORKL_BASE_URL_def summary_line_def key_eq_def)
  have sr: "seen Report sample_calls =
      [report_one, JObj [(''id'', JStr ''r2''), (''title'', JStr ''Two'')],
       JObj [(''id'', JStr ''r1''), (''title'', JStr ''One, revised'')]]"
    and sa: "seen Actor sample_calls = [JObj [(''id'', JStr ''a1''), (''main_name'', JStr ''APT'')]]"
    and ss: "seen Source sample_calls = []"
    by (simp_all add: sample_calls_def stub_def ok_response_def entities_def)
  show ?thesis
    using run listing_complete_and_ordered [OF run]
    by (simp add: sr sa ss spec_listing_def first_seen_def latest_def the_id_def report_one_def
        spec_resource_def the_field_def key_eq_def)
qed

text \<open>
  Claim C2 asks that the listing tolerates an entry without its display field. Evaluated
  on the cache that a detail call leaves when the upstream answers 200 without
  \<^verbatim>\<open>data\<close> (the entry \<^verbatim>\<open>r1\<close> is the empty object), \<open>handle_list_resources\<close> raises
  \<^verbatim>\<open>KeyError\<close> and lists nothing.
\<close>

theorem listing_fails_on_entry_without_title:
  "handle_call_tool (stub (ok_response (JObj [])))
      ''fetch_threat_report_details'' (Some (map_of [(''report_id'', ''r1'')])) initial_world
     = (Inr [TextContent ''{}''], with_r1 (JObj []))
   \<and> handle_list_resources (cache (with_r1 (JObj []))) = Inl (KeyError ''title'')"
  by (simp add: handle_call_tool_def fetch_entry_def stub_def ok_response_def
      initial_world_def empty_cache_def with_r1_def ORKL_BASE_URL_def json_dumps_def
      handle_list_resources_def report_resource_def)

section \<open>Resource reading\<close>

text \<open>
  What \<open>handle_read_resource\<close> does is read off its definition: another scheme is
  rejected (\<open>read_other_scheme\<close>); a path of one segment raises \<^verbatim>\<open>IndexError\<close> at
  \<^verbatim>\<open>path_parts[1]\<close> (\<open>read_one_segment\<close>); a path that carries a kind and an
  identifier is answered from the cache (\<open>read_path_of_kind_and_id\<close>).
\<close>

text \<open>
  Claim C8 asks that reading the address of a kind and an identifier that is not cached
  returns the empty object. Evaluated on the addresses \<^verbatim>\<open>threat://report/r1\<close>,
  \<^verbatim>\<open>threat://actor/a1\<close> and \<^verbatim>\<open>threat://source/s1\<close> with an empty cache, the handler
  raises \<^verbatim>\<open>IndexError\<close>: the kind is the host of the address, the path holds the
  identifier alone. The empty object comes back when kind and identifier are both in the
  path, as in \<^verbatim>\<open>threat://orkl/report/r1\<close>.
\<close>

theorem cache_miss_read_raises:
  "handle_read_resource empty_cache (threat_url ''report'' ''/r1'') = Inl IndexError
   \<and> handle_read_resource empty_cache (threat_url ''actor'' ''/a1'') = Inl IndexError
   \<and> handle_read_resource empty_cache (threat_url ''source'' ''/s1'') = Inl IndexError
   \<and> handle_read_resource empty_cache (threat_url ''orkl'' ''/report/r1'') = Inr ''{}''"
  by (simp add: handle_read_resource_def threat_url_def str_strip_def empty_cache_def
      get_or_empty_def json_dumps_def)

text \<open>
  Claim C7 asks that an address with the right scheme and an unknown kind is rejected as
  an unknown resource type. Evaluated on \<^verbatim>\<open>threat://widget/1\<close>, the handler raises
  \<^verbatim>\<open>IndexError\<close> before it looks at the kind; the unknown-type error is raised when
  the unknown kind is the first of two path segments. (The other half of the claim,
  on foreign schemes, is \<open>read_other_scheme\<close>.)
\<close>

theorem unknown_kind_read_raises_index_error:
  "handle_read_resource empty_cache (threat_url ''widget'' ''/1'') = Inl IndexError
   \<and> handle_read_resource empty_cache (threat_url ''orkl'' ''/widget/1'')
       = Inl (UnknownResourceType ''widget'')
   \<and> handle_read_resource empty_cache \<lparr>scheme = ''foo'', host = Some ''report'', path = Some ''/1''\<rparr>
       = Inl (InvalidAddress ''foo'')"
  by (simp add: handle_read_resource_def threat_url_def str_strip_def)

text \<open>
  Claim C1 asks that a record stored by a detail call is read back, serialised, from the
  address of its kind and identifier. Evaluated for the report \<^verbatim>\<open>r1\<close>: the detail call
  caches the record and returns its serialisation, and reading
  \<^verbatim>\<open>threat://report/r1\<close> raises \<^verbatim>\<open>IndexError\<close>. The serialisation is read back from
  an address with both segments in the path.
\<close>

theorem round_trip_read_raises:
  "handle_call_tool (stub (ok_response (JObj [(''data'', report_one)])))
      ''fetch_threat_report_details'' (Some (map_of [(''report_id'', ''r1'')])) initial_world
     = (Inr [TextContent (json_dumps report_one)], with_r1 report_one)
   \<and> handle_read_resource (cache (with_r1 report_one)) (threat_url ''report'' ''/r1'')
       = Inl IndexError
   \<and> handle_read_resource (cache (with_r1 report_one)) (threat_url ''orkl'' ''/report/r1'')
       = Inr (json_dumps report_one)"
  by (simp add: handle_call_tool_def fetch_entry_def stub_def ok_response_def
      initial_world_def empty_cache_def with_r1_def ORKL_BASE_URL_def
      handle_read_resource_def threat_url_def str_strip_def get_or_empty_def)

end
